theory Spec2Isabelle
  imports Complex_Main
begin

section \<open>JavaScript numbers\<close>

text \<open>
  The estimator computes on JavaScript numbers, the binary64 values of IEEE 754.
  \<open>Fin a\<close> is the finite number with the real value \<open>a\<close> (\<open>Fin 0\<close> is \<open>+0\<close>),
  \<open>NegZero\<close> is \<open>-0\<close>, and \<open>PInf\<close>, \<open>NInf\<close> and \<open>NaN\<close> are the special
  values. An arithmetic operation returns the exact result rounded to the nearest
  binary64 value, a tie going to the even significand, as the operations of the language
  do.
\<close>

datatype jsnum = Fin real | NegZero | PInf | NInf | NaN

fun isFinite :: "jsnum \<Rightarrow> bool" where
  "isFinite (Fin a) = True"
| "isFinite NegZero = True"
| "isFinite x = False"

text \<open>The real value of a finite number (both zeros have the value 0).\<close>

fun val :: "jsnum \<Rightarrow> real" where
  "val (Fin a) = a"
| "val x = 0"

fun signbit :: "jsnum \<Rightarrow> bool" where
  "signbit (Fin a) = (a < 0)"
| "signbit NegZero = True"
| "signbit NInf = True"
| "signbit x = False"

definition zero_s :: "bool \<Rightarrow> jsnum" where
  "zero_s s = (if s then NegZero else Fin 0)"

definition inf_s :: "bool \<Rightarrow> jsnum" where
  "inf_s s = (if s then NInf else PInf)"

subsection \<open>Rounding a real to binary64\<close>

text \<open>
  The binary exponent of a positive real \<open>a\<close>, the \<open>e\<close> with
  \<open>2 ^ e \<le> a < 2 ^ (e + 1)\<close>, found by halving or doubling. The search stops at
  1024 halvings (the number overflows) and at 1075 doublings (it rounds to zero), which
  is all the rounding needs.
\<close>

fun halvings :: "nat \<Rightarrow> real \<Rightarrow> nat" where
  "halvings 0 a = 0"
| "halvings (Suc n) a = (if 2 \<le> a then Suc (halvings n (a / 2)) else 0)"

fun doublings :: "nat \<Rightarrow> real \<Rightarrow> nat" where
  "doublings 0 a = 0"
| "doublings (Suc n) a = (if a < 1 then Suc (doublings n (2 * a)) else 0)"

definition binexp :: "real \<Rightarrow> int" where
  "binexp a = (if 1 \<le> a then int (halvings 1024 a) else - int (doublings 1075 a))"

definition pow2 :: "int \<Rightarrow> real" where
  "pow2 k = (if 0 \<le> k then 2 ^ nat k else 1 / 2 ^ nat (- k))"

text \<open>Rounding to the nearest integer, a tie to the even one; \<open>f\<close> is the floor of \<open>x\<close>.\<close>

definition rne_at :: "int \<Rightarrow> real \<Rightarrow> int" where
  "rne_at f x =
     (if x - of_int f < 1 / 2 then f
      else if 1 / 2 < x - of_int f then f + 1
      else if even f then f else f + 1)"

definition rne :: "real \<Rightarrow> int" where
  "rne x = rne_at \<lfloor>x\<rfloor> x"

text \<open>
  The number with significand \<open>m\<close> and unit in the last place \<open>q\<close>: a zero of the
  given sign when \<open>m\<close> is 0, an infinity when the value has left the binary64 range.
\<close>

definition finish :: "bool \<Rightarrow> int \<Rightarrow> real \<Rightarrow> jsnum" where
  "finish s m q =
     (if m = 0 then zero_s s
      else if pow2 1024 \<le> of_int m * q then inf_s s
      else Fin (if s then - (of_int m * q) else of_int m * q))"

definition round_at :: "bool \<Rightarrow> real \<Rightarrow> real \<Rightarrow> jsnum" where
  "round_at s q a = finish s (rne (a / q)) q"

text \<open>
  The binary64 value nearest to the real \<open>r\<close>, whose sign is \<open>s\<close>. The unit in the
  last place is \<open>2 ^ (e - 52)\<close> for the exponent \<open>e\<close> of \<open>r\<close>, and \<open>2 ^ (- 1074)\<close>
  in the subnormal range.
\<close>

definition dbl_s :: "bool \<Rightarrow> real \<Rightarrow> jsnum" where
  "dbl_s s r = round_at s (pow2 (max (binexp \<bar>r\<bar>) (- 1022) - 52)) \<bar>r\<bar>"

text \<open>A decimal literal of the program: the binary64 value nearest to it.\<close>

definition dbl :: "real \<Rightarrow> jsnum" where
  "dbl r = dbl_s (r < 0) r"

subsection \<open>The operations\<close>

fun jneg :: "jsnum \<Rightarrow> jsnum" where
  "jneg (Fin a) = (if a = 0 then NegZero else Fin (- a))"
| "jneg NegZero = Fin 0"
| "jneg PInf = NInf"
| "jneg NInf = PInf"
| "jneg NaN = NaN"

text \<open>
  A sum that is exactly zero is \<open>+0\<close>, unless both operands are negative zeros (the
  flag \<open>s\<close>).
\<close>

definition add_fin :: "bool \<Rightarrow> real \<Rightarrow> jsnum" where
  "add_fin s r = (if r = 0 then zero_s s else dbl r)"

definition jadd :: "jsnum \<Rightarrow> jsnum \<Rightarrow> jsnum" where
  "jadd x y =
     (if x = NaN \<or> y = NaN then NaN
      else if \<not> isFinite x then (if \<not> isFinite y \<and> x \<noteq> y then NaN else x)
      else if \<not> isFinite y then y
      else add_fin (signbit x \<and> signbit y) (val x + val y))"

definition jsub :: "jsnum \<Rightarrow> jsnum \<Rightarrow> jsnum" where
  "jsub x y = jadd x (jneg y)"

definition jmul :: "jsnum \<Rightarrow> jsnum \<Rightarrow> jsnum" where
  "jmul x y =
     (if x = NaN \<or> y = NaN then NaN
      else if isFinite x \<and> isFinite y then dbl_s (signbit x \<noteq> signbit y) (val x * val y)
      else if (isFinite x \<and> val x = 0) \<or> (isFinite y \<and> val y = 0) then NaN
      else inf_s (signbit x \<noteq> signbit y))"

definition jdiv :: "jsnum \<Rightarrow> jsnum \<Rightarrow> jsnum" where
  "jdiv x y =
     (if x = NaN \<or> y = NaN then NaN
      else if \<not> isFinite x then (if \<not> isFinite y then NaN else inf_s (signbit x \<noteq> signbit y))
      else if \<not> isFinite y then zero_s (signbit x \<noteq> signbit y)
      else if val y = 0 then (if val x = 0 then NaN else inf_s (signbit x \<noteq> signbit y))
      else dbl_s (signbit x \<noteq> signbit y) (val x / val y))"

text \<open>Comparisons: every comparison with NaN is false, and the two zeros are equal.\<close>

fun jle :: "jsnum \<Rightarrow> jsnum \<Rightarrow> bool" where
  "jle NaN y = False"
| "jle x NaN = False"
| "jle NInf y = True"
| "jle x PInf = True"
| "jle PInf y = False"
| "jle x NInf = False"
| "jle x y = (val x \<le> val y)"

fun jlt :: "jsnum \<Rightarrow> jsnum \<Rightarrow> bool" where
  "jlt NaN y = False"
| "jlt x NaN = False"
| "jlt PInf y = False"
| "jlt x NInf = False"
| "jlt NInf y = True"
| "jlt x PInf = True"
| "jlt x y = (val x < val y)"

definition jgt :: "jsnum \<Rightarrow> jsnum \<Rightarrow> bool" where
  "jgt x y = jlt y x"

definition jge :: "jsnum \<Rightarrow> jsnum \<Rightarrow> bool" where
  "jge x y = jle y x"

text \<open>
  \<open>Math.round\<close> rounds to the nearest integer, a tie towards plus infinity, and
  \<open>Math.floor\<close> rounds down; both are exact, and leave the special values and the
  zeros as they are. \<open>Math.round\<close> of a negative number that rounds to zero is \<open>-0\<close>.
\<close>

fun Math_round :: "jsnum \<Rightarrow> jsnum" where
  "Math_round (Fin a) =
     (if \<lfloor>a + 1 / 2\<rfloor> = 0 then zero_s (a < 0) else Fin (of_int \<lfloor>a + 1 / 2\<rfloor>))"
| "Math_round x = x"

fun Math_floor :: "jsnum \<Rightarrow> jsnum" where
  "Math_floor (Fin a) = Fin (of_int \<lfloor>a\<rfloor>)"
| "Math_floor x = x"

text \<open>
  The three lodash functions the estimator calls, each with the arguments it passes:
  \<open>_.round(x)\<close> and \<open>_.floor(x)\<close> with no precision are \<open>Math.round\<close> and
  \<open>Math.floor\<close>; \<open>_.clamp(x, lower, upper)\<close> leaves NaN alone and otherwise
  takes the upper bound first, then the lower.
\<close>

definition lodash_round :: "jsnum \<Rightarrow> jsnum" where
  "lodash_round x = Math_round x"

definition lodash_floor :: "jsnum \<Rightarrow> jsnum" where
  "lodash_floor x = Math_floor x"

definition lodash_clamp :: "jsnum \<Rightarrow> jsnum \<Rightarrow> jsnum \<Rightarrow> jsnum" where
  "lodash_clamp x lower upper =
     (if x = NaN then x
      else (let y = (if jle x upper then x else upper)
            in if jge y lower then y else lower))"

section \<open>The progress estimator (class Progress)\<close>

definition PROGRESS_SMOOTHING_FACTOR :: jsnum where
  "PROGRESS_SMOOTHING_FACTOR = dbl (5 / 1000)"

definition PROGRESS_UPDATE_INTERVAL :: jsnum where
  "PROGRESS_UPDATE_INTERVAL = Fin 1000"

text \<open>
  The two callbacks the class hands to \<open>setTimeout\<close>: the one of \<open>startUpdate\<close>,
  which seeds the average speed, and the one of \<open>updateProgressInfo\<close>, the periodic tick.
\<close>

datatype timer = InitialUpdate | PeriodicTick

text \<open>
  An object of the class. \<open>onProgress\<close> is the caller's callback; the model records
  every call of it, oldest first, as the triple (percentage, eta, speed) it was given.
  What the callback does with them is the caller's business: it is taken not to call
  back into the estimator.
  \<open>timeouts\<close> holds the callbacks scheduled with \<open>setTimeout\<close> and not yet run,
  each with its delay in milliseconds.
\<close>

record progress =
  totalSize :: jsnum
  initialUpdateDelay :: jsnum
  updatedSize :: jsnum
  lastUpdatedSize :: jsnum
  isUpdateStarted :: bool
  isCompleted :: bool
  averageSpeed :: jsnum
  onProgress :: "(jsnum \<times> jsnum \<times> jsnum) list"
  timeouts :: "(timer \<times> jsnum) list"

datatype progress_error = TooLateTotalSize | TooLateStartSize | AlreadyStarted

text \<open>The constructor; an argument left out takes its default.\<close>

definition new_Progress :: "jsnum option \<Rightarrow> jsnum option \<Rightarrow> progress" where
  "new_Progress size_arg delay_arg =
     \<lparr> totalSize = (case size_arg of None \<Rightarrow> Fin 0 | Some t \<Rightarrow> t),
       initialUpdateDelay = (case delay_arg of None \<Rightarrow> Fin 2000 | Some d \<Rightarrow> d),
       updatedSize = Fin 0,
       lastUpdatedSize = Fin 0,
       isUpdateStarted = False,
       isCompleted = False,
       averageSpeed = Fin 0,
       onProgress = [],
       timeouts = [] \<rparr>"

text \<open>
  \<^verbatim>\<open>setTotalSize(size) { if (this.isUpdateStarted) { throw new Error('too late to set total size'); } this.totalSize = size; }\<close>
  and \<open>setStartSize\<close> alike, which sets \<open>updatedSize\<close> and \<open>lastUpdatedSize\<close>.
\<close>

definition setTotalSize :: "jsnum \<Rightarrow> progress \<Rightarrow> progress_error + progress" where
  "setTotalSize n p =
     (if isUpdateStarted p then Inl TooLateTotalSize
      else Inr (p\<lparr>totalSize := n\<rparr>))"

definition setStartSize :: "jsnum \<Rightarrow> progress \<Rightarrow> progress_error + progress" where
  "setStartSize n p =
     (if isUpdateStarted p then Inl TooLateStartSize
      else Inr (p\<lparr>updatedSize := n, lastUpdatedSize := n\<rparr>))"

text \<open>
  The getter \<open>percentage\<close>:
  \<^verbatim>\<open>if (this.totalSize <= 0) { return 0; }\<close>
  \<^verbatim>\<open>const percentage = _.round(this.updatedSize / this.totalSize * 100);\<close>
  \<^verbatim>\<open>return _.clamp(percentage, 0, 99);\<close>
\<close>

definition percentage :: "progress \<Rightarrow> jsnum" where
  "percentage p =
     (if jle (totalSize p) (Fin 0) then Fin 0
      else lodash_clamp
             (lodash_round (jmul (jdiv (updatedSize p) (totalSize p)) (Fin 100)))
             (Fin 0) (Fin 99))"

text \<open>
  \<open>startUpdate\<close> throws when the estimator is marked as started; otherwise it marks
  it, calls \<^verbatim>\<open>this.onProgress(this.percentage, -1, -1)\<close> and schedules the initial
  callback after \<open>initialUpdateDelay\<close>.
\<close>

definition startUpdate :: "progress \<Rightarrow> progress_error + progress" where
  "startUpdate p =
     (if isUpdateStarted p then Inl AlreadyStarted
      else (let p1 = p\<lparr>isUpdateStarted := True\<rparr>;
                p2 = p1\<lparr>onProgress := onProgress p1 @ [(percentage p1, Fin (- 1), Fin (- 1))]\<rparr>
            in Inr (p2\<lparr>timeouts := timeouts p2 @ [(InitialUpdate, initialUpdateDelay p2)]\<rparr>)))"

text \<open>\<^verbatim>\<open>update(size) { this.updatedSize += size; }\<close>\<close>

definition update :: "jsnum \<Rightarrow> progress \<Rightarrow> progress" where
  "update n p = p\<lparr>updatedSize := jadd (updatedSize p) n\<rparr>"

text \<open>
  \<open>updateProgressInfo\<close>, statement by statement:
  \<^verbatim>\<open>const pendingSize = this.totalSize - this.updatedSize;\<close>
  \<^verbatim>\<open>const lastSpeed = this.updatedSize - this.lastUpdatedSize;\<close>
  \<^verbatim>\<open>this.lastUpdatedSize = this.updatedSize;\<close>
  \<^verbatim>\<open>let eta = -1;\<close>
  \<^verbatim>\<open>if (lastSpeed > 0) { this.averageSpeed = FACTOR * lastSpeed + (1 - FACTOR) * this.averageSpeed; }\<close>
  \<^verbatim>\<open>if (this.averageSpeed > 0 && pendingSize >= 0) { eta = _.floor(pendingSize / this.averageSpeed); eta = eta < 1 ? 1 : eta; }\<close>
  \<^verbatim>\<open>if (!this.isCompleted) { this.onProgress(this.percentage, eta, lastSpeed); setTimeout(..., PROGRESS_UPDATE_INTERVAL); }\<close>
\<close>

definition updateProgressInfo :: "progress \<Rightarrow> progress" where
  "updateProgressInfo p =
     (let pendingSize = jsub (totalSize p) (updatedSize p);
          lastSpeed = jsub (updatedSize p) (lastUpdatedSize p);
          p1 = p\<lparr>lastUpdatedSize := updatedSize p\<rparr>;
          p2 = (if jgt lastSpeed (Fin 0)
                then (let current = jmul PROGRESS_SMOOTHING_FACTOR lastSpeed;
                          average = jmul (jsub (Fin 1) PROGRESS_SMOOTHING_FACTOR) (averageSpeed p1)
                      in p1\<lparr>averageSpeed := jadd current average\<rparr>)
                else p1);
          eta = (if jgt (averageSpeed p2) (Fin 0) \<and> jge pendingSize (Fin 0)
                 then (let e = lodash_floor (jdiv pendingSize (averageSpeed p2))
                       in if jlt e (Fin 1) then Fin 1 else e)
                 else Fin (- 1))
      in if \<not> isCompleted p2
         then p2\<lparr>onProgress := onProgress p2 @ [(percentage p2, eta, lastSpeed)],
                 timeouts := timeouts p2 @ [(PeriodicTick, PROGRESS_UPDATE_INTERVAL)]\<rparr>
         else p2)"

text \<open>
  The callback \<open>startUpdate\<close> schedules:
  \<^verbatim>\<open>const intervalInSecond = this.initialUpdateDelay / 1000;\<close>
  \<^verbatim>\<open>this.averageSpeed = (this.updatedSize - this.lastUpdatedSize) / intervalInSecond;\<close>
  \<^verbatim>\<open>this.lastUpdatedSize = this.updatedSize - this.averageSpeed;\<close>
  \<^verbatim>\<open>this.updateProgressInfo();\<close>
\<close>

definition initialUpdate :: "progress \<Rightarrow> progress" where
  "initialUpdate p =
     (let intervalInSecond = jdiv (initialUpdateDelay p) (Fin 1000);
          p1 = p\<lparr>averageSpeed := jdiv (jsub (updatedSize p) (lastUpdatedSize p)) intervalInSecond\<rparr>;
          p2 = p1\<lparr>lastUpdatedSize := jsub (updatedSize p1) (averageSpeed p1)\<rparr>
      in updateProgressInfo p2)"

text \<open>
  \<open>abort\<close> and \<open>complete\<close> set both flags and call \<open>onProgress\<close> once, with
  \<^verbatim>\<open>(this.percentage, -1, -1)\<close> and \<^verbatim>\<open>(100, 0, 0)\<close>. Neither cancels a
  scheduled callback.
\<close>

definition abort :: "progress \<Rightarrow> progress" where
  "abort p =
     (let p1 = p\<lparr>isUpdateStarted := True, isCompleted := True\<rparr>
      in p1\<lparr>onProgress := onProgress p1 @ [(percentage p1, Fin (- 1), Fin (- 1))]\<rparr>)"

definition complete :: "progress \<Rightarrow> progress" where
  "complete p =
     (let p1 = p\<lparr>isUpdateStarted := True, isCompleted := True\<rparr>
      in p1\<lparr>onProgress := onProgress p1 @ [(Fin 100, Fin 0, Fin 0)]\<rparr>)"

subsection \<open>The event loop\<close>

text \<open>
  What can happen to an estimator: the caller calls one of its methods, or the oldest
  scheduled callback runs. A method that throws leaves the object as it was (each check
  comes before the first assignment) and the exception goes to the caller. Time itself
  is not modelled: a scheduled callback may run at any place in a sequence of events.
\<close>

datatype event =
    CallSetTotalSize jsnum
  | CallSetStartSize jsnum
  | CallStartUpdate
  | CallUpdate jsnum
  | CallAbort
  | CallComplete
  | TimerFires

fun runTimer :: "timer \<Rightarrow> progress \<Rightarrow> progress" where
  "runTimer InitialUpdate p = initialUpdate p"
| "runTimer PeriodicTick p = updateProgressInfo p"

definition fire :: "progress \<Rightarrow> progress" where
  "fire p =
     (case timeouts p of
        [] \<Rightarrow> p
      | (t, d) # rest \<Rightarrow> runTimer t (p\<lparr>timeouts := rest\<rparr>))"

definition orElse :: "progress_error + progress \<Rightarrow> progress \<Rightarrow> progress" where
  "orElse r p = (case r of Inl e \<Rightarrow> p | Inr q \<Rightarrow> q)"

fun step :: "event \<Rightarrow> progress \<Rightarrow> progress" where
  "step (CallSetTotalSize n) p = orElse (setTotalSize n p) p"
| "step (CallSetStartSize n) p = orElse (setStartSize n p) p"
| "step CallStartUpdate p = orElse (startUpdate p) p"
| "step (CallUpdate n) p = update n p"
| "step CallAbort p = abort p"
| "step CallComplete p = complete p"
| "step TimerFires p = fire p"

fun run :: "event list \<Rightarrow> progress \<Rightarrow> progress" where
  "run [] p = p"
| "run (e # es) p = run es (step e p)"

text \<open>The calls of \<open>onProgress\<close> made while the events \<open>es\<close> are handled from \<open>p\<close>.\<close>

definition emitted :: "event list \<Rightarrow> progress \<Rightarrow> (jsnum \<times> jsnum \<times> jsnum) list" where
  "emitted es p = drop (length (onProgress p)) (onProgress (run es p))"

definition isTerminal :: "event \<Rightarrow> bool" where
  "isTerminal e = (e = CallAbort \<or> e = CallComplete)"

text \<open>
  At most one callback is ever scheduled: none before the estimator is started, and each
  one that runs schedules at most one more. So running the oldest one first loses nothing.
\<close>

definition timeoutsOk :: "progress \<Rightarrow> bool" where
  "timeoutsOk p = (length (timeouts p) \<le> 1 \<and> (\<not> isUpdateStarted p \<longrightarrow> timeouts p = []))"

section \<open>The selection state engine\<close>

text \<open>
  The engine is the module \<open>lib/gui/models/selection-state\<close> that the tests load; the
  module itself is not among the sources, only its tests
  (\<open>tests/gui/models/selection-state.spec.js\<close>) and one caller are. Every definition
  of this section is therefore written from the specification, and checked against the
  values the tests expect.
\<close>

text \<open>
  Modelled from the spec: a value of a loosely typed descriptor field (section 3 and the
  validation rules of \<open>setImage\<close> in section 4.1); \<open>Undefined\<close> is a missing field.
  The descriptor type of \<open>lib/gui/models/selection-state\<close> is missing.
\<close>

datatype jsval = Undefined | Num int | Str string

text \<open>Modelled from the spec: the type test "string" of the validation rules in section 4.1.\<close>

fun isString :: "jsval \<Rightarrow> bool" where
  "isString (Str s) = True"
| "isString v = False"

text \<open>Modelled from the spec: the type test "number" of the validation rules in section 4.1.\<close>

fun isNumber :: "jsval \<Rightarrow> bool" where
  "isNumber (Num n) = True"
| "isNumber v = False"

text \<open>
  Modelled from the spec: the Device of section 3 (identity, display name, size in bytes,
  write-protection flag, mount-point paths, optional system flag), with the field names
  of the tests' drive objects. A device with no mount points has the empty list.
\<close>

record drive =
  drive_device :: string
  drive_name :: string
  drive_size :: int
  drive_protected :: bool
  drive_mountpoints :: "string list"
  drive_system :: "bool option"

text \<open>
  Modelled from the spec: a size variant of an OS (section 3: "each with its own
  checksum/checksum-type/recommended-size/URL").
\<close>

record variant =
  variant_checksum :: string
  variant_checksumType :: string
  variant_recommendedDriveSize :: int
  variant_url :: string

text \<open>
  Modelled from the spec: the OS Selection of section 3, a named OS with a version, a
  logo and an ordered list of variants.
\<close>

record os_selection =
  os_name :: string
  os_version :: string
  os_logo :: string
  os_images :: "variant list"

text \<open>
  Modelled from the spec: the Image of section 3 in the shape \<open>getImage()\<close> returns
  (section 8): path and size, and the optional fields, with the version and the
  \<open>downloadChecksum\<close> fields of an image derived from an OS.
\<close>

record image =
  image_path :: string
  image_size :: int
  image_recommendedDriveSize :: "int option"
  image_url :: "string option"
  image_name :: "string option"
  image_logo :: "string option"
  image_supportUrl :: "string option"
  image_version :: "string option"
  image_downloadChecksum :: "string option"
  image_downloadChecksumType :: "string option"

text \<open>
  Modelled from the spec: the Selection of section 3, the selected Device, Image and OS,
  each optional. The store of \<open>lib/gui/models/selection-state\<close> is missing.
\<close>

record selection =
  sel_drive :: "drive option"
  sel_image :: "image option"
  sel_os :: "os_selection option"

text \<open>
  Modelled from the spec: the argument of \<open>setImage\<close> as the caller passes it. The
  fields that section 4.1 validates are loosely typed; the recommended drive size, which
  it does not validate, is typed.
\<close>

record descriptor =
  d_path :: jsval
  d_size :: jsval
  d_url :: jsval
  d_name :: jsval
  d_logo :: jsval
  d_supportUrl :: jsval
  d_recommendedDriveSize :: "int option"

text \<open>
  Modelled from the spec: the \<open>InvalidArgument\<close> error of sections 4.1 and 7, which
  names the field and says whether it is missing or of the wrong type (the tests expect
  "Missing image path" and "Invalid image path: 123" as different messages).
\<close>

datatype field = Path | Size | Url | Name | Logo | SupportUrl

datatype problem = Missing | Mistyped

datatype selection_error = InvalidArgument field problem

subsection \<open>The effective image of an OS\<close>

text \<open>Modelled from the spec: a short name for a variant's recommended drive size.\<close>

abbreviation rds :: "variant \<Rightarrow> int" where
  "rds \<equiv> variant_recommendedDriveSize"

text \<open>
  Modelled from the spec: the scan behind \<open>getOSSmallestImage()\<close> (section 4.1): the
  variant with the minimum \<open>recommendedDriveSize\<close>, the first one met on a tie.
\<close>

fun smallestOf :: "variant \<Rightarrow> variant list \<Rightarrow> variant" where
  "smallestOf best [] = best"
| "smallestOf best (v # vs) =
     smallestOf
       (if variant_recommendedDriveSize v < variant_recommendedDriveSize best then v else best) vs"

text \<open>
  Modelled from the spec: \<open>getOSSmallestImage()\<close> on the list of variants; absent for
  an OS with no variant.
\<close>

definition smallestImage :: "variant list \<Rightarrow> variant option" where
  "smallestImage vs = (case vs of [] \<Rightarrow> None | v # rest \<Rightarrow> Some (smallestOf v rest))"

text \<open>
  Modelled from the spec: the first half of the variant-selection algorithm of section
  4.1, "the variant with the largest \<open>recommendedDriveSize\<close> that is \<open><= S\<close>"; the
  first one met on a tie, nothing when no variant qualifies.
\<close>

fun largestFitting :: "int \<Rightarrow> variant option \<Rightarrow> variant list \<Rightarrow> variant option" where
  "largestFitting S best [] = best"
| "largestFitting S best (v # vs) =
     largestFitting S
       (if variant_recommendedDriveSize v \<le> S
           \<and> (case best of
                 None \<Rightarrow> True
               | Some b \<Rightarrow> variant_recommendedDriveSize b < variant_recommendedDriveSize v)
        then Some v else best) vs"

text \<open>
  Modelled from the spec: the variant-selection algorithm of section 4.1, with its
  fallback to the smallest variant "if none qualifies (device smaller than every variant,
  or no device selected)".
\<close>

definition selectVariant :: "drive option \<Rightarrow> variant list \<Rightarrow> variant option" where
  "selectVariant dev vs =
     (case dev of
        None \<Rightarrow> smallestImage vs
      | Some d \<Rightarrow>
          (case largestFitting (drive_size d) None vs of
             Some v \<Rightarrow> Some v
           | None \<Rightarrow> smallestImage vs))"

text \<open>
  Modelled from the spec: the effective-Image shape of section 8 (\<open>path\<close> is the
  variant's URL, \<open>size\<close> its \<open>recommendedDriveSize\<close>, the checksum fields renamed),
  with the logo and the version of the OS as the test of \<open>getImage()\<close> expects them.
\<close>

definition effectiveShape :: "os_selection \<Rightarrow> variant \<Rightarrow> image" where
  "effectiveShape os v =
     \<lparr> image_path = variant_url v,
       image_size = variant_recommendedDriveSize v,
       image_recommendedDriveSize = None,
       image_url = None,
       image_name = None,
       image_logo = Some (os_logo os),
       image_supportUrl = None,
       image_version = Some (os_version os),
       image_downloadChecksum = Some (variant_checksum v),
       image_downloadChecksumType = Some (variant_checksumType v) \<rparr>"

text \<open>
  Modelled from the spec: \<open>getImage()\<close> (section 4.1): the image derived from the
  selected OS for the currently selected Device when an OS is selected, the stored Image
  otherwise, and absent when there is neither.
\<close>

definition getImage :: "selection \<Rightarrow> image option" where
  "getImage s =
     (case sel_os s of
        Some os \<Rightarrow> map_option (effectiveShape os) (selectVariant (sel_drive s) (os_images os))
      | None \<Rightarrow> sel_image s)"

subsection \<open>Setting an image\<close>

text \<open>
  Modelled from the spec: the segments of a file-system path, for "is a filesystem
  ancestor directory of" in the side effect of \<open>setImage\<close> (section 4.1). Paths are
  separated by \<open>/\<close>; the path library the engine uses is missing.
\<close>

fun splitPath :: "string \<Rightarrow> string list" where
  "splitPath [] = [[]]"
| "splitPath (c # cs) =
     (if c = CHR ''/'' then [] # splitPath cs
      else (case splitPath cs of
              [] \<Rightarrow> [[c]]
            | seg # segs \<Rightarrow> (c # seg) # segs))"

text \<open>Modelled from the spec: the non-empty segments of a path (see \<open>splitPath\<close>).\<close>

definition segments :: "string \<Rightarrow> string list" where
  "segments p = filter (\<lambda>seg. seg \<noteq> []) (splitPath p)"

text \<open>
  Modelled from the spec: "a filesystem ancestor directory of the image's own path"
  (section 4.1, side effect (c)): the directory's segments are a proper prefix of the
  path's.
\<close>

definition isAncestorDirectory :: "string \<Rightarrow> string \<Rightarrow> bool" where
  "isAncestorDirectory dir p =
     (length (segments dir) < length (segments p)
      \<and> take (length (segments dir)) (segments p) = segments dir)"

text \<open>
  Modelled from the spec: the validation of \<open>setImage\<close> (section 4.1), in the order
  the spec lists the fields: \<open>path\<close> (required, string), \<open>size\<close> (required, number),
  then \<open>url\<close>, \<open>name\<close>, \<open>logo\<close> and \<open>supportUrl\<close> (strings when present).
\<close>

definition checkImage :: "descriptor \<Rightarrow> selection_error option" where
  "checkImage d =
     (if d_path d = Undefined then Some (InvalidArgument Path Missing)
      else if \<not> isString (d_path d) then Some (InvalidArgument Path Mistyped)
      else if d_size d = Undefined then Some (InvalidArgument Size Missing)
      else if \<not> isNumber (d_size d) then Some (InvalidArgument Size Mistyped)
      else if d_url d \<noteq> Undefined \<and> \<not> isString (d_url d)
        then Some (InvalidArgument Url Mistyped)
      else if d_name d \<noteq> Undefined \<and> \<not> isString (d_name d)
        then Some (InvalidArgument Name Mistyped)
      else if d_logo d \<noteq> Undefined \<and> \<not> isString (d_logo d)
        then Some (InvalidArgument Logo Mistyped)
      else if d_supportUrl d \<noteq> Undefined \<and> \<not> isString (d_supportUrl d)
        then Some (InvalidArgument SupportUrl Mistyped)
      else None)"

text \<open>Modelled from the spec: an optional string field of a validated descriptor.\<close>

fun stringOf :: "jsval \<Rightarrow> string option" where
  "stringOf (Str s) = Some s"
| "stringOf v = None"

text \<open>
  Modelled from the spec: the Image a validated descriptor stands for (\<open>getImage()\<close>
  returns the fields that were set, as the test of \<open>getImage()\<close> on a plain image
  expects).
\<close>

definition toImage :: "descriptor \<Rightarrow> image" where
  "toImage d =
     \<lparr> image_path = (case d_path d of Str p \<Rightarrow> p | _ \<Rightarrow> []),
       image_size = (case d_size d of Num n \<Rightarrow> n | _ \<Rightarrow> 0),
       image_recommendedDriveSize = d_recommendedDriveSize d,
       image_url = stringOf (d_url d),
       image_name = stringOf (d_name d),
       image_logo = stringOf (d_logo d),
       image_supportUrl = stringOf (d_supportUrl d),
       image_version = None,
       image_downloadChecksum = None,
       image_downloadChecksumType = None \<rparr>"

text \<open>
  Modelled from the spec: the three conditions (a), (b), (c) of section 4.1 under which
  \<open>setImage\<close> clears the selected Device: the device is smaller than the image, smaller
  than the recommended drive size the image declares, or one of its mount points is an
  ancestor directory of the image's path.
\<close>

definition driveUnfit :: "drive \<Rightarrow> image \<Rightarrow> bool" where
  "driveUnfit dev img =
     (drive_size dev < image_size img
      \<or> (case image_recommendedDriveSize img of
            None \<Rightarrow> False
          | Some r \<Rightarrow> drive_size dev < r)
      \<or> list_ex (\<lambda>m. isAncestorDirectory m (image_path img)) (drive_mountpoints dev))"

text \<open>
  Modelled from the spec: \<open>setImage(descriptor)\<close> (section 4.1): validation first; on
  success the Image is replaced, the OS cleared, and the Device cleared without an error
  when it does not fit the new image.
\<close>

definition setImage :: "descriptor \<Rightarrow> selection \<Rightarrow> selection_error + selection" where
  "setImage d s =
     (case checkImage d of
        Some e \<Rightarrow> Inl e
      | None \<Rightarrow>
          (let img = toImage d;
               s1 = s\<lparr>sel_image := Some img, sel_os := None\<rparr>
           in Inr (case sel_drive s of
                     None \<Rightarrow> s1
                   | Some dev \<Rightarrow> if driveUnfit dev img then s1\<lparr>sel_drive := None\<rparr> else s1)))"

text \<open>
  Modelled from the spec: the engine's selection once a call of \<open>setImage\<close> has
  returned or thrown (section 7: a failed call leaves the prior selection intact).
\<close>

definition afterSetImage :: "descriptor \<Rightarrow> selection \<Rightarrow> selection" where
  "afterSetImage d s = (case setImage d s of Inl e \<Rightarrow> s | Inr s' \<Rightarrow> s')"

section \<open>Example objects\<close>

text \<open>
  An estimator for 1000 bytes that was started, has received 500 bytes and has run its
  initial timer; the first periodic tick is scheduled.
\<close>

definition P500 :: progress where
  "P500 = run [CallStartUpdate, CallUpdate (Fin 500), TimerFires] (new_Progress (Some (Fin 1000)) None)"

text \<open>
  An estimator for 129 bytes that was started, received 22 bytes before its initial timer
  ran and 51 bytes after it; the first periodic tick is scheduled.
\<close>

definition T129 :: progress where
  "T129 = run [CallStartUpdate, CallUpdate (Fin 22), TimerFires, CallUpdate (Fin 51)]
     (new_Progress (Some (Fin 129)) None)"

text \<open>
  The same for a write of 1000 MiB in chunks of 16 MiB and 18 MiB.
\<close>

definition M1000 :: progress where
  "M1000 = run [CallStartUpdate, CallUpdate (Fin 16777216), TimerFires, CallUpdate (Fin 18874368)]
     (new_Progress (Some (Fin 1048576000)) None)"

text \<open>
  An estimator made with an infinite total size and an initial delay of zero, started,
  given 5 bytes, after its initial timer: the average speed is \<open>5 / 0\<close>.
\<close>

definition I0 :: progress where
  "I0 = run [CallStartUpdate, CallUpdate (Fin 5), TimerFires]
     (new_Progress (Some PInf) (Some (Fin 0)))"

text \<open>The OS, the drives and the image descriptors of the tests of the selection engine.\<close>

definition customOS :: os_selection where
  "customOS =
     \<lparr> os_name = ''Custom Operation System'',
       os_version = ''1.0.0'',
       os_logo = ''http://path.to/image/logo'',
       os_images =
         [\<lparr> variant_checksum = ''e5b4ee5f5acf2613b197fe1edf29a80c'',
            variant_checksumType = ''md5'',
            variant_recommendedDriveSize = 4000000000,
            variant_url = ''http://path.to/os/os.4gb.tar.gz'' \<rparr>,
          \<lparr> variant_checksum = ''7b59f5efdb1bc2a9ea7f92adf3a91477'',
            variant_checksumType = ''md5'',
            variant_recommendedDriveSize = 2000000000,
            variant_url = ''http://path.to/os/os.2gb.tar.gz'' \<rparr>,
          \<lparr> variant_checksum = ''efc88c38dbba1ae202416c3330916549'',
            variant_checksumType = ''md5'',
            variant_recommendedDriveSize = 6000000000,
            variant_url = ''http://path.to/os/os.6gb.tar.gz'' \<rparr>,
          \<lparr> variant_checksum = ''aedba18eec9921a8fa4bee8bbf199b2b'',
            variant_checksumType = ''md5'',
            variant_recommendedDriveSize = 8000000000,
            variant_url = ''http://path.to/os/os.8gb.tar.gz'' \<rparr>] \<rparr>"

definition usbDrive :: "string \<Rightarrow> int \<Rightarrow> drive" where
  "usbDrive dev n =
     \<lparr> drive_device = dev, drive_name = ''USB Drive'', drive_size = n,
       drive_protected = False, drive_mountpoints = [], drive_system = None \<rparr>"

definition mounted :: "string list \<Rightarrow> drive \<Rightarrow> drive" where
  "mounted ms dev = dev\<lparr>drive_mountpoints := ms\<rparr>"

definition withOS :: "drive option \<Rightarrow> selection" where
  "withOS d = \<lparr> sel_drive = d, sel_image = None, sel_os = Some customOS \<rparr>"

definition withDrive :: "drive \<Rightarrow> selection" where
  "withDrive dev = \<lparr> sel_drive = Some dev, sel_image = None, sel_os = None \<rparr>"

definition noFields :: descriptor where
  "noFields =
     \<lparr> d_path = Undefined, d_size = Undefined, d_url = Undefined, d_name = Undefined,
       d_logo = Undefined, d_supportUrl = Undefined, d_recommendedDriveSize = None \<rparr>"

definition plainImage :: "string \<Rightarrow> int \<Rightarrow> int option \<Rightarrow> descriptor" where
  "plainImage p n r = noFields\<lparr>d_path := Str p, d_size := Num n, d_recommendedDriveSize := r\<rparr>"

definition withImage :: selection where
  "withImage =
     \<lparr> sel_drive = None,
       sel_image = Some (toImage (plainImage ''bar.img'' 999999999 None)),
       sel_os = None \<rparr>"

section \<open>Properties of the numbers\<close>

lemma halvings_numeral:
  "halvings (numeral k) a = (if 2 \<le> a then Suc (halvings (pred_numeral k) (a / 2)) else 0)"
  by (simp add: numeral_eq_Suc)

lemma doublings_numeral:
  "doublings (numeral k) a = (if a < 1 then Suc (doublings (pred_numeral k) (2 * a)) else 0)"
  by (simp add: numeral_eq_Suc)

lemma dbl_s_not_NaN [simp]: "dbl_s s r \<noteq> NaN"
  by (simp add: dbl_s_def round_at_def finish_def zero_s_def inf_s_def)

lemma dbl_not_NaN [simp]: "dbl r \<noteq> NaN"
  by (simp add: dbl_def)

text \<open>The operations on two finite non-zero-signed numbers, for evaluation.\<close>

lemma jadd_Fin: "jadd (Fin a) (Fin b) = (if a + b = 0 then Fin 0 else dbl (a + b))"
  by (auto simp: jadd_def add_fin_def zero_s_def)

lemma jsub_Fin: "jsub (Fin a) (Fin b) = (if a - b = 0 then Fin 0 else dbl (a - b))"
  by (auto simp: jsub_def jadd_def add_fin_def zero_s_def dbl_def)

lemma jmul_Fin: "jmul (Fin a) (Fin b) = dbl_s ((a < 0) \<noteq> (b < 0)) (a * b)"
  by (simp add: jmul_def)

lemma jdiv_Fin:
  "jdiv (Fin a) (Fin b) =
     (if b = 0 then (if a = 0 then NaN else inf_s (a < 0))
      else dbl_s ((a < 0) \<noteq> (b < 0)) (a / b))"
  by (simp add: jdiv_def)

lemma jsnum_NaN:
  "jadd NaN y = NaN" "jadd x NaN = NaN" "jsub NaN y = NaN" "jsub x NaN = NaN"
  "jmul NaN y = NaN" "jmul x NaN = NaN" "jdiv NaN y = NaN" "jdiv x NaN = NaN"
  by (simp_all add: jadd_def jsub_def jmul_def jdiv_def)

text \<open>The same with an infinite operand.\<close>

lemma jadd_Inf:
  "jadd PInf y = (if y = NaN \<or> y = NInf then NaN else PInf)"
  "jadd NInf y = (if y = NaN \<or> y = PInf then NaN else NInf)"
  "jadd (Fin a) PInf = PInf" "jadd (Fin a) NInf = NInf"
  by (cases y; simp add: jadd_def)+

lemma jsub_Inf:
  "jsub PInf y = (if y = NaN \<or> y = PInf then NaN else PInf)"
  "jsub NInf y = (if y = NaN \<or> y = NInf then NaN else NInf)"
  "jsub (Fin a) PInf = NInf" "jsub (Fin a) NInf = PInf"
  by (cases y; simp add: jsub_def jadd_def)+

lemma jmul_Inf:
  "jmul (Fin a) PInf = (if a = 0 then NaN else inf_s (a < 0))"
  "jmul (Fin a) NInf = (if a = 0 then NaN else inf_s (\<not> a < 0))"
  by (simp_all add: jmul_def)

lemma jdiv_Inf:
  "jdiv (Fin a) PInf = zero_s (a < 0)" "jdiv (Fin a) NInf = zero_s (\<not> a < 0)"
  "jdiv PInf PInf = NaN" "jdiv PInf NInf = NaN" "jdiv NInf PInf = NaN" "jdiv NInf NInf = NaN"
  "jdiv PInf (Fin b) = inf_s (b < 0)" "jdiv NInf (Fin b) = inf_s (\<not> b < 0)"
  by (simp_all add: jdiv_def)

lemmas jsnum_eval = jadd_Fin jsub_Fin jmul_Fin jdiv_Fin jsnum_NaN
  jadd_Inf jsub_Inf jmul_Inf jdiv_Inf
  dbl_def dbl_s_def round_at_def finish_def rne_def rne_at_def binexp_def pow2_def
  zero_s_def inf_s_def halvings_numeral doublings_numeral
  jgt_def jge_def lodash_round_def lodash_floor_def lodash_clamp_def
  PROGRESS_SMOOTHING_FACTOR_def PROGRESS_UPDATE_INTERVAL_def

lemma smoothing_factor: "dbl (5 / 1000) = Fin (5764607523034235 / 1152921504606846976)"
  by (simp add: jsnum_eval)

lemma smoothing_complement: "jsub (Fin 1) (dbl (1 / 200)) = dbl (199 / 200)"
  by (simp add: jsnum_eval)

lemma example_quotient: "jmul (jdiv (Fin 23) (Fin 40)) (Fin 100) = Fin (8092405580431359 / 140737488355328)"
  by (simp add: jsnum_eval)

section \<open>Properties of the progress estimator\<close>

lemmas progress_defs = new_Progress_def setTotalSize_def setStartSize_def percentage_def
  startUpdate_def update_def updateProgressInfo_def initialUpdate_def abort_def complete_def
  fire_def orElse_def emitted_def isTerminal_def Let_def

lemma P500_eval: "P500 = \<lparr>totalSize = Fin 1000, initialUpdateDelay = Fin 2000,
    updatedSize = Fin 500, lastUpdatedSize = Fin 500,
    isUpdateStarted = True, isCompleted = False, averageSpeed = Fin 250,
    onProgress = [(Fin 0, Fin (- 1), Fin (- 1)), (Fin 50, Fin 2, Fin 250)],
    timeouts = [(PeriodicTick, Fin 1000)]\<rparr>"
  by (simp add: P500_def progress_defs jsnum_eval)

lemma T129_eval: "T129 = \<lparr>totalSize = Fin 129, initialUpdateDelay = Fin 2000,
    updatedSize = Fin 73, lastUpdatedSize = Fin 22,
    isUpdateStarted = True, isCompleted = False, averageSpeed = Fin 11,
    onProgress = [(Fin 0, Fin (- 1), Fin (- 1)), (Fin 17, Fin 9, Fin 11)],
    timeouts = [(PeriodicTick, Fin 1000)]\<rparr>"
  by (simp add: T129_def progress_defs jsnum_eval)

lemma M1000_eval: "M1000 = \<lparr>totalSize = Fin 1048576000, initialUpdateDelay = Fin 2000,
    updatedSize = Fin 35651584, lastUpdatedSize = Fin 16777216,
    isUpdateStarted = True, isCompleted = False, averageSpeed = Fin 8388608,
    onProgress = [(Fin 0, Fin (- 1), Fin (- 1)), (Fin 2, Fin 123, Fin 8388608)],
    timeouts = [(PeriodicTick, Fin 1000)]\<rparr>"
  by (simp add: M1000_def progress_defs jsnum_eval)

lemma I0_eval: "I0 = \<lparr>totalSize = PInf, initialUpdateDelay = Fin 0,
    updatedSize = Fin 5, lastUpdatedSize = Fin 5,
    isUpdateStarted = True, isCompleted = False, averageSpeed = PInf,
    onProgress = [(Fin 0, Fin (- 1), Fin (- 1)), (Fin 0, NaN, PInf)],
    timeouts = [(PeriodicTick, Fin 1000)]\<rparr>"
  by (simp add: I0_def progress_defs jsnum_eval)

subsection \<open>The percentage\<close>

lemma percentage_not_100: "percentage p \<noteq> Fin 100"
  unfolding percentage_def lodash_clamp_def lodash_round_def jge_def Let_def
  by (cases "Math_round (jmul (jdiv (updatedSize p) (totalSize p)) (Fin 100))") auto

lemma percentage_range:
  "percentage p = NaN \<or> (jle (Fin 0) (percentage p) \<and> jle (percentage p) (Fin 99))"
  unfolding percentage_def lodash_clamp_def lodash_round_def jge_def Let_def
  by (cases "Math_round (jmul (jdiv (updatedSize p) (totalSize p)) (Fin 100))") auto

text \<open>Where a NaN comes from.\<close>

lemma not_jle_zero: "\<not> jle t (Fin 0) \<longleftrightarrow> t = NaN \<or> jlt (Fin 0) t"
  by (cases t) auto

lemma clamp_NaN: "lodash_clamp x (Fin 0) (Fin 99) = NaN \<longleftrightarrow> x = NaN"
  by (cases x) (auto simp: lodash_clamp_def jge_def Let_def)

lemma Math_round_NaN: "Math_round x = NaN \<longleftrightarrow> x = NaN"
  by (cases x) (auto simp: zero_s_def)

lemma jmul_100_NaN: "jmul x (Fin 100) = NaN \<longleftrightarrow> x = NaN"
  by (cases x) (auto simp: jmul_def inf_s_def)

lemma jdiv_positive_NaN:
  "jlt (Fin 0) t \<Longrightarrow>
   jdiv u t = NaN \<longleftrightarrow> u = NaN \<or> (\<not> isFinite u \<and> t = PInf)"
  by (cases t; cases u) (auto simp: jdiv_def inf_s_def zero_s_def)

lemma percentage_NaN:
  "percentage p = NaN \<longleftrightarrow>
     totalSize p = NaN
     \<or> (jlt (Fin 0) (totalSize p)
        \<and> (updatedSize p = NaN \<or> (\<not> isFinite (updatedSize p) \<and> totalSize p = PInf)))"
proof (cases "jle (totalSize p) (Fin 0)")
  case True
  then have "percentage p = Fin 0" by (simp add: percentage_def)
  moreover from True have "totalSize p \<noteq> NaN" "\<not> jlt (Fin 0) (totalSize p)"
    by (cases "totalSize p"; auto)+
  ultimately show ?thesis by simp
next
  case False
  then have pct: "percentage p = NaN \<longleftrightarrow> jdiv (updatedSize p) (totalSize p) = NaN"
    by (simp add: percentage_def clamp_NaN lodash_round_def Math_round_NaN jmul_100_NaN)
  from False consider "totalSize p = NaN" | "jlt (Fin 0) (totalSize p)"
    by (auto simp: not_jle_zero)
  then show ?thesis
  proof cases
    case 1
    then show ?thesis by (simp add: pct jsnum_NaN)
  next
    case 2
    then have "totalSize p \<noteq> NaN" by (cases "totalSize p") auto
    with 2 show ?thesis by (simp add: pct jdiv_positive_NaN)
  qed
qed

subsection \<open>What a timer callback changes and reports\<close>

lemma upi_frame [simp]:
  "totalSize (updateProgressInfo p) = totalSize p"
  "updatedSize (updateProgressInfo p) = updatedSize p"
  "isCompleted (updateProgressInfo p) = isCompleted p"
  "isUpdateStarted (updateProgressInfo p) = isUpdateStarted p"
  "initialUpdateDelay (updateProgressInfo p) = initialUpdateDelay p"
  by (simp_all add: updateProgressInfo_def Let_def)

lemma upi_completed: "isCompleted p \<Longrightarrow> onProgress (updateProgressInfo p) = onProgress p"
  by (simp add: updateProgressInfo_def Let_def)

lemma upi_running:
  "\<not> isCompleted p \<Longrightarrow>
   \<exists>eta. onProgress (updateProgressInfo p) =
     onProgress p @ [(percentage p, eta, jsub (updatedSize p) (lastUpdatedSize p))]"
  by (simp add: updateProgressInfo_def Let_def percentage_def)

lemma upi_emits:
  "\<exists>cs. onProgress (updateProgressInfo p) = onProgress p @ cs \<and> (\<forall>c\<in>set cs. fst c \<noteq> Fin 100)"
proof (cases "isCompleted p")
  case True
  then show ?thesis by (simp add: upi_completed)
next
  case False
  from upi_running [OF this] obtain eta where
    "onProgress (updateProgressInfo p) =
       onProgress p @ [(percentage p, eta, jsub (updatedSize p) (lastUpdatedSize p))]" ..
  then show ?thesis by (simp add: percentage_not_100)
qed

lemma iu_frame [simp]:
  "totalSize (initialUpdate p) = totalSize p"
  "updatedSize (initialUpdate p) = updatedSize p"
  "isCompleted (initialUpdate p) = isCompleted p"
  "isUpdateStarted (initialUpdate p) = isUpdateStarted p"
  "initialUpdateDelay (initialUpdate p) = initialUpdateDelay p"
  by (simp_all add: initialUpdate_def Let_def)

lemma iu_emits:
  "\<exists>cs. onProgress (initialUpdate p) = onProgress p @ cs \<and> (\<forall>c\<in>set cs. fst c \<noteq> Fin 100)"
proof -
  define q where "q = (let intervalInSecond = jdiv (initialUpdateDelay p) (Fin 1000);
          p1 = p\<lparr>averageSpeed := jdiv (jsub (updatedSize p) (lastUpdatedSize p)) intervalInSecond\<rparr>
      in p1\<lparr>lastUpdatedSize := jsub (updatedSize p1) (averageSpeed p1)\<rparr>)"
  have 1: "initialUpdate p = updateProgressInfo q"
    by (simp add: initialUpdate_def q_def Let_def)
  have 2: "onProgress q = onProgress p"
    by (simp add: q_def Let_def)
  from upi_emits [of q] show ?thesis unfolding 1 2 .
qed

lemma iu_completed: "isCompleted p \<Longrightarrow> onProgress (initialUpdate p) = onProgress p"
  by (simp add: initialUpdate_def Let_def upi_completed)

lemma runTimer_frame [simp]:
  "totalSize (runTimer t p) = totalSize p"
  "updatedSize (runTimer t p) = updatedSize p"
  "isCompleted (runTimer t p) = isCompleted p"
  "isUpdateStarted (runTimer t p) = isUpdateStarted p"
  "initialUpdateDelay (runTimer t p) = initialUpdateDelay p"
  by (cases t; simp)+

lemma runTimer_emits:
  "\<exists>cs. onProgress (runTimer t p) = onProgress p @ cs \<and> (\<forall>c\<in>set cs. fst c \<noteq> Fin 100)"
  by (cases t) (simp_all add: upi_emits iu_emits)

lemma runTimer_completed: "isCompleted p \<Longrightarrow> onProgress (runTimer t p) = onProgress p"
  by (cases t) (simp_all add: upi_completed iu_completed)

lemma fire_frame [simp]:
  "totalSize (fire p) = totalSize p"
  "updatedSize (fire p) = updatedSize p"
  "isCompleted (fire p) = isCompleted p"
  "isUpdateStarted (fire p) = isUpdateStarted p"
  "initialUpdateDelay (fire p) = initialUpdateDelay p"
  by (simp_all add: fire_def split: list.splits)

lemma fire_emits:
  "\<exists>cs. onProgress (fire p) = onProgress p @ cs \<and> (\<forall>c\<in>set cs. fst c \<noteq> Fin 100)"
proof (cases "timeouts p")
  case Nil
  then show ?thesis by (simp add: fire_def)
next
  case (Cons td rest)
  obtain t d where "td = (t, d)" by (cases td)
  with Cons have "fire p = runTimer t (p\<lparr>timeouts := rest\<rparr>)"
    by (simp add: fire_def)
  with runTimer_emits [of t "p\<lparr>timeouts := rest\<rparr>"] show ?thesis by simp
qed

lemma fire_completed: "isCompleted p \<Longrightarrow> onProgress (fire p) = onProgress p"
  by (simp add: fire_def runTimer_completed split: list.splits)

subsection \<open>Only \<open>complete\<close> reports 100\<close>

lemma step_emits:
  "e \<noteq> CallComplete \<Longrightarrow>
   \<exists>cs. onProgress (step e p) = onProgress p @ cs \<and> (\<forall>c\<in>set cs. fst c \<noteq> Fin 100)"
proof (cases e)
  case TimerFires
  then show ?thesis by (simp add: fire_emits)
next
  case CallAbort
  then show ?thesis by (simp add: abort_def Let_def percentage_not_100)
next
  case CallStartUpdate
  then show ?thesis
    by (simp add: startUpdate_def orElse_def Let_def percentage_not_100)
qed (simp_all add: orElse_def setTotalSize_def setStartSize_def update_def)

lemma run_emits:
  "CallComplete \<notin> set es \<Longrightarrow>
   \<exists>cs. onProgress (run es p) = onProgress p @ cs \<and> (\<forall>c\<in>set cs. fst c \<noteq> Fin 100)"
proof (induction es arbitrary: p)
  case Nil
  then show ?case by simp
next
  case (Cons e es)
  then have "e \<noteq> CallComplete" "CallComplete \<notin> set es" by auto
  from step_emits [OF this(1), of p] obtain cs where
    1: "onProgress (step e p) = onProgress p @ cs" "\<forall>c\<in>set cs. fst c \<noteq> Fin 100" by blast
  from Cons.IH [OF \<open>CallComplete \<notin> set es\<close>, of "step e p"] obtain ds where
    2: "onProgress (run es (step e p)) = onProgress (step e p) @ ds"
       "\<forall>c\<in>set ds. fst c \<noteq> Fin 100" by blast
  from 1 2 have "onProgress (run (e # es) p) = onProgress p @ (cs @ ds)
      \<and> (\<forall>c\<in>set (cs @ ds). fst c \<noteq> Fin 100)"
    by auto
  then show ?case by blast
qed

lemma emitted_no_100:
  "CallComplete \<notin> set es \<Longrightarrow> \<forall>c\<in>set (emitted es p). fst c \<noteq> Fin 100"
  using run_emits [of es p] by (auto simp: emitted_def)

text \<open>
  Claim C7, as amended. The percentage an estimator reports is 0 whenever
  \<open>totalSize <= 0\<close>, and otherwise \<open>_.clamp(_.round(updatedSize / totalSize * 100), 0, 99)\<close>
  in the arithmetic of the program. It is NaN exactly when \<open>totalSize\<close> is NaN, or
  \<open>totalSize > 0\<close> and \<open>updatedSize\<close> is NaN or both are infinite; in every other
  state it lies in the range 0 to 99. Whatever happens to an estimator in whatever state
  (method calls and timer callbacks in any order), no call of \<open>onProgress\<close> reports 100
  as long as \<open>complete\<close> is not called.
\<close>

theorem percentage_reported:
  "(jle (totalSize p) (Fin 0) \<longrightarrow> percentage p = Fin 0)
   \<and> (\<not> jle (totalSize p) (Fin 0) \<longrightarrow>
        percentage p =
          lodash_clamp (lodash_round (jmul (jdiv (updatedSize p) (totalSize p)) (Fin 100)))
            (Fin 0) (Fin 99))
   \<and> (percentage p = NaN \<longleftrightarrow>
        totalSize p = NaN
        \<or> (jlt (Fin 0) (totalSize p)
           \<and> (updatedSize p = NaN \<or> (\<not> isFinite (updatedSize p) \<and> totalSize p = PInf))))
   \<and> (percentage p \<noteq> NaN \<longrightarrow> jle (Fin 0) (percentage p) \<and> jle (percentage p) (Fin 99))
   \<and> (\<forall>es. CallComplete \<notin> set es \<longrightarrow> (\<forall>c\<in>set (emitted es p). fst c \<noteq> Fin 100))"
proof -
  have "percentage p = NaN \<longleftrightarrow>
        totalSize p = NaN
        \<or> (jlt (Fin 0) (totalSize p)
           \<and> (updatedSize p = NaN \<or> (\<not> isFinite (updatedSize p) \<and> totalSize p = PInf)))"
    by (rule percentage_NaN)
  moreover have "percentage p \<noteq> NaN \<longrightarrow> jle (Fin 0) (percentage p) \<and> jle (percentage p) (Fin 99)"
    using percentage_range [of p] by blast
  moreover have "\<forall>es. CallComplete \<notin> set es \<longrightarrow> (\<forall>c\<in>set (emitted es p). fst c \<noteq> Fin 100)"
    using emitted_no_100 [of _ p] by blast
  moreover have "jle (totalSize p) (Fin 0) \<longrightarrow> percentage p = Fin 0"
    by (simp add: percentage_def)
  moreover have "\<not> jle (totalSize p) (Fin 0) \<longrightarrow>
        percentage p =
          lodash_clamp (lodash_round (jmul (jdiv (updatedSize p) (totalSize p)) (Fin 100)))
            (Fin 0) (Fin 99)"
    by (simp add: percentage_def)
  ultimately show ?thesis by blast
qed

theorem percentage_reported_witness:
  "jle (totalSize (new_Progress None None)) (Fin 0)
   \<and> percentage (new_Progress None None) = Fin 0
   \<and> \<not> jle (totalSize P500) (Fin 0)
   \<and> percentage P500 = Fin 50
   \<and> percentage (update (Fin 23) (new_Progress (Some (Fin 40)) None)) = Fin 57
   \<and> percentage (update (Fin 2300000000) (new_Progress (Some (Fin 4000000000)) None)) = Fin 57
   \<and> percentage (update (Fin 700) P500) = Fin 99
   \<and> CallComplete \<notin> set [CallUpdate (Fin 495), TimerFires, CallAbort]
   \<and> emitted [CallUpdate (Fin 495), TimerFires, CallAbort] P500
       = [(Fin 99, Fin 1, Fin 495), (Fin 99, Fin (- 1), Fin (- 1))]"
  using percentage_reported [of "new_Progress None None"] percentage_reported [of P500]
    percentage_reported [of "update (Fin 23) (new_Progress (Some (Fin 40)) None)"]
  by (simp add: P500_eval progress_defs jsnum_eval)

text \<open>
  The claim as it was stated, with the range for every state, fails for a total size
  that is NaN: \<open>NaN <= 0\<close> is false, and \<open>_.clamp\<close> returns NaN.
\<close>

theorem percentage_reported_counterexample:
  "\<not> jle (totalSize (step (CallSetTotalSize NaN) (new_Progress None None))) (Fin 0)
   \<and> percentage (step (CallSetTotalSize NaN) (new_Progress None None)) = NaN
   \<and> \<not> jle (Fin 0) (percentage (step (CallSetTotalSize NaN) (new_Progress None None)))
   \<and> \<not> jle (percentage (step (CallSetTotalSize NaN) (new_Progress None None))) (Fin 99)"
  by (simp add: progress_defs jsnum_eval)

subsection \<open>The periodic tick\<close>

lemma upi_general:
  "\<not> isCompleted p \<Longrightarrow>
   (let lastSpeed = jsub (updatedSize p) (lastUpdatedSize p);
        pendingSize = jsub (totalSize p) (updatedSize p);
        average = (if jgt lastSpeed (Fin 0)
                   then jadd (jmul (dbl (5 / 1000)) lastSpeed)
                          (jmul (dbl (995 / 1000)) (averageSpeed p))
                   else averageSpeed p);
        floored = lodash_floor (jdiv pendingSize average);
        eta = (if jgt average (Fin 0) \<and> jge pendingSize (Fin 0)
               then (if jlt floored (Fin 1) then Fin 1 else floored)
               else Fin (- 1))
    in averageSpeed (updateProgressInfo p) = average
     \<and> onProgress (updateProgressInfo p) = onProgress p @ [(percentage p, eta, lastSpeed)])"
  by (simp add: updateProgressInfo_def Let_def smoothing_complement percentage_def
        PROGRESS_SMOOTHING_FACTOR_def)

lemma Math_floor_NaN: "Math_floor x = NaN \<longleftrightarrow> x = NaN"
  by (cases x) auto

lemma raised_NaN: "(if jlt e (Fin 1) then Fin 1 else e) = NaN \<longleftrightarrow> e = NaN"
  by (cases e) auto

lemma raised_at_least_1:
  "e \<noteq> NaN \<Longrightarrow> jle (Fin 1) (if jlt e (Fin 1) then Fin 1 else e)"
  by (cases e) auto

lemma jdiv_pending_NaN:
  "jgt a (Fin 0) \<Longrightarrow> jge q (Fin 0) \<Longrightarrow> jdiv q a = NaN \<longleftrightarrow> q = PInf \<and> a = PInf"
  by (cases a; cases q) (auto simp: jdiv_def jgt_def jge_def inf_s_def zero_s_def)

lemma eta_NaN:
  "(if jgt a (Fin 0) \<and> jge q (Fin 0)
    then (if jlt (lodash_floor (jdiv q a)) (Fin 1) then Fin 1 else lodash_floor (jdiv q a))
    else Fin (- 1)) = NaN \<longleftrightarrow> a = PInf \<and> q = PInf"
proof (cases "jgt a (Fin 0) \<and> jge q (Fin 0)")
  case True
  then have "jgt a (Fin 0)" "jge q (Fin 0)" by simp_all
  from jdiv_pending_NaN [OF this]
  have "lodash_floor (jdiv q a) = NaN \<longleftrightarrow> q = PInf \<and> a = PInf"
    by (simp add: lodash_floor_def Math_floor_NaN)
  with True raised_NaN [of "lodash_floor (jdiv q a)"] show ?thesis by auto
next
  case False
  then have "\<not> (a = PInf \<and> q = PInf)" by (auto simp: jgt_def jge_def)
  with False show ?thesis by auto
qed

lemma eta_range:
  assumes "\<not> (a = PInf \<and> q = PInf)"
  shows "(if jgt a (Fin 0) \<and> jge q (Fin 0)
    then (if jlt (lodash_floor (jdiv q a)) (Fin 1) then Fin 1 else lodash_floor (jdiv q a))
    else Fin (- 1)) = Fin (- 1)
   \<or> jle (Fin 1) (if jgt a (Fin 0) \<and> jge q (Fin 0)
    then (if jlt (lodash_floor (jdiv q a)) (Fin 1) then Fin 1 else lodash_floor (jdiv q a))
    else Fin (- 1))"
proof (cases "jgt a (Fin 0) \<and> jge q (Fin 0)")
  case True
  with assms have "lodash_floor (jdiv q a) \<noteq> NaN"
    by (auto simp: lodash_floor_def Math_floor_NaN jdiv_pending_NaN)
  from raised_at_least_1 [OF this] True show ?thesis by auto
next
  case False
  then show ?thesis by auto
qed

text \<open>
  Claim C8, as amended. A periodic tick of a running estimator (\<open>updateProgressInfo\<close>
  on an object that is not completed) takes \<open>lastSpeed = updatedSize - lastUpdatedSize\<close>;
  the average speed becomes \<open>0.005 * lastSpeed + 0.995 * averageSpeed\<close> when
  \<open>lastSpeed > 0\<close> and is left as it was otherwise; and the tick reports, with the
  percentage and \<open>lastSpeed\<close>, the ETA \<open>floor((totalSize - updatedSize) / averageSpeed)\<close>,
  or 1 when that is below 1, when the new average is positive and the pending size is
  not negative, and \<open>-1\<close> otherwise. The reported ETA is NaN exactly when the new
  average and the pending size are both infinite; in every other state it is \<open>-1\<close> or
  at least 1. Every operation is the rounded one of the program, and \<open>0.005\<close> and
  \<open>0.995\<close> are the binary64 values of the literals (the program writes
  \<open>1 - 0.005\<close>, which is the same number).
\<close>

theorem tick_speed_and_eta:
  "\<not> isCompleted p \<longrightarrow>
   (let lastSpeed = jsub (updatedSize p) (lastUpdatedSize p);
        pendingSize = jsub (totalSize p) (updatedSize p);
        average = (if jgt lastSpeed (Fin 0)
                   then jadd (jmul (dbl (5 / 1000)) lastSpeed)
                          (jmul (dbl (995 / 1000)) (averageSpeed p))
                   else averageSpeed p);
        floored = lodash_floor (jdiv pendingSize average);
        eta = (if jgt average (Fin 0) \<and> jge pendingSize (Fin 0)
               then (if jlt floored (Fin 1) then Fin 1 else floored)
               else Fin (- 1))
    in averageSpeed (updateProgressInfo p) = average
     \<and> onProgress (updateProgressInfo p) = onProgress p @ [(percentage p, eta, lastSpeed)]
     \<and> (eta = NaN \<longleftrightarrow> average = PInf \<and> pendingSize = PInf)
     \<and> (eta \<noteq> NaN \<longrightarrow> eta = Fin (- 1) \<or> jle (Fin 1) eta))"
proof
  assume running: "\<not> isCompleted p"
  define lastSpeed where "lastSpeed = jsub (updatedSize p) (lastUpdatedSize p)"
  define pendingSize where "pendingSize = jsub (totalSize p) (updatedSize p)"
  define average where "average = (if jgt lastSpeed (Fin 0)
                   then jadd (jmul (dbl (5 / 1000)) lastSpeed)
                          (jmul (dbl (995 / 1000)) (averageSpeed p))
                   else averageSpeed p)"
  define eta where "eta = (if jgt average (Fin 0) \<and> jge pendingSize (Fin 0)
               then (if jlt (lodash_floor (jdiv pendingSize average)) (Fin 1) then Fin 1
                     else lodash_floor (jdiv pendingSize average))
               else Fin (- 1))"
  from upi_general [OF running]
  have code: "averageSpeed (updateProgressInfo p) = average
     \<and> onProgress (updateProgressInfo p) = onProgress p @ [(percentage p, eta, lastSpeed)]"
    by (simp add: Let_def lastSpeed_def pendingSize_def average_def eta_def)
  have nan: "eta = NaN \<longleftrightarrow> average = PInf \<and> pendingSize = PInf"
    unfolding eta_def by (rule eta_NaN)
  have range: "eta \<noteq> NaN \<longrightarrow> eta = Fin (- 1) \<or> jle (Fin 1) eta"
  proof
    assume "eta \<noteq> NaN"
    with nan have "\<not> (average = PInf \<and> pendingSize = PInf)" by simp
    from eta_range [OF this] show "eta = Fin (- 1) \<or> jle (Fin 1) eta"
      unfolding eta_def .
  qed
  from code nan range
  show "(let lastSpeed = jsub (updatedSize p) (lastUpdatedSize p);
        pendingSize = jsub (totalSize p) (updatedSize p);
        average = (if jgt lastSpeed (Fin 0)
                   then jadd (jmul (dbl (5 / 1000)) lastSpeed)
                          (jmul (dbl (995 / 1000)) (averageSpeed p))
                   else averageSpeed p);
        floored = lodash_floor (jdiv pendingSize average);
        eta = (if jgt average (Fin 0) \<and> jge pendingSize (Fin 0)
               then (if jlt floored (Fin 1) then Fin 1 else floored)
               else Fin (- 1))
    in averageSpeed (updateProgressInfo p) = average
     \<and> onProgress (updateProgressInfo p) = onProgress p @ [(percentage p, eta, lastSpeed)]
     \<and> (eta = NaN \<longleftrightarrow> average = PInf \<and> pendingSize = PInf)
     \<and> (eta \<noteq> NaN \<longrightarrow> eta = Fin (- 1) \<or> jle (Fin 1) eta))"
    unfolding Let_def lastSpeed_def pendingSize_def average_def eta_def by blast
qed

theorem tick_speed_and_eta_witness:
  "\<not> isCompleted T129
   \<and> averageSpeed (updateProgressInfo T129) = Fin (6305039478318695 / 562949953421312)
   \<and> onProgress (updateProgressInfo T129) = onProgress T129 @ [(Fin 57, Fin 4, Fin 51)]
   \<and> averageSpeed (updateProgressInfo M1000) = Fin (2265873562520781 / 268435456)
   \<and> onProgress (updateProgressInfo M1000) = onProgress M1000 @ [(Fin 3, Fin 119, Fin 18874368)]
   \<and> averageSpeed (updateProgressInfo (update (Fin 100) P500)) = Fin (24925 / 100)
   \<and> onProgress (updateProgressInfo (update (Fin 100) P500))
       = onProgress P500 @ [(Fin 60, Fin 1, Fin 100)]
   \<and> averageSpeed (updateProgressInfo P500) = Fin 250
   \<and> onProgress (updateProgressInfo P500) = onProgress P500 @ [(Fin 50, Fin 2, Fin 0)]
   \<and> onProgress (updateProgressInfo (update (Fin 600) P500))
       = onProgress P500 @ [(Fin 99, Fin (- 1), Fin 600)]"
  using tick_speed_and_eta [of T129] tick_speed_and_eta [of P500]
  by (simp add: T129_eval M1000_eval P500_eval progress_defs jsnum_eval)

text \<open>
  The claim as it was stated, with an ETA of at least 1 whenever the average is positive
  and the pending size is not negative, fails when both are infinite: the quotient is
  NaN, and \<open>NaN < 1\<close> is false, so NaN is what the tick reports.
\<close>

theorem tick_speed_and_eta_counterexample:
  "\<not> isCompleted I0
   \<and> timeouts I0 = [(PeriodicTick, Fin 1000)]
   \<and> jgt (averageSpeed (updateProgressInfo I0)) (Fin 0)
   \<and> jge (jsub (totalSize I0) (updatedSize I0)) (Fin 0)
   \<and> onProgress (fire I0) = onProgress I0 @ [(Fin 0, NaN, Fin 0)]
   \<and> \<not> jle (Fin 1) NaN"
  by (simp add: I0_eval progress_defs jsnum_eval)

subsection \<open>After \<open>abort\<close> or \<open>complete\<close>\<close>

lemma step_isCompleted: "isCompleted p \<Longrightarrow> isCompleted (step e p)"
  by (cases e) (simp_all add: orElse_def setTotalSize_def setStartSize_def startUpdate_def
      update_def abort_def complete_def Let_def)

lemma step_isUpdateStarted: "isUpdateStarted p \<Longrightarrow> isUpdateStarted (step e p)"
  by (cases e) (simp_all add: orElse_def setTotalSize_def setStartSize_def startUpdate_def
      update_def abort_def complete_def Let_def)

lemma run_isCompleted: "isCompleted p \<Longrightarrow> isCompleted (run es p)"
  by (induction es arbitrary: p) (simp_all add: step_isCompleted)

lemma run_isUpdateStarted: "isUpdateStarted p \<Longrightarrow> isUpdateStarted (run es p)"
  by (induction es arbitrary: p) (simp_all add: step_isUpdateStarted)

lemma terminal_flags [simp]:
  "isCompleted (abort p)" "isUpdateStarted (abort p)"
  "isCompleted (complete p)" "isUpdateStarted (complete p)"
  by (simp_all add: abort_def complete_def Let_def)

text \<open>
  A completed estimator that is also marked as started is silent: \<open>startUpdate\<close> throws
  before its callback, and a timer callback that still runs finds \<open>isCompleted\<close> set.
\<close>

lemma step_silent:
  "isCompleted p \<Longrightarrow> isUpdateStarted p \<Longrightarrow> \<not> isTerminal e \<Longrightarrow>
   onProgress (step e p) = onProgress p"
  by (cases e) (simp_all add: isTerminal_def orElse_def setTotalSize_def setStartSize_def
      startUpdate_def update_def fire_completed Let_def)

lemma run_silent:
  "isCompleted p \<Longrightarrow> isUpdateStarted p \<Longrightarrow> \<forall>e\<in>set es. \<not> isTerminal e \<Longrightarrow>
   onProgress (run es p) = onProgress p"
proof (induction es arbitrary: p)
  case Nil
  then show ?case by simp
next
  case (Cons e es)
  then have "onProgress (run es (step e p)) = onProgress (step e p)"
    by (simp add: step_isCompleted step_isUpdateStarted)
  with Cons.prems show ?case by (simp add: step_silent)
qed

lemma emitted_silent:
  "isCompleted p \<Longrightarrow> isUpdateStarted p \<Longrightarrow> \<forall>e\<in>set es. \<not> isTerminal e \<Longrightarrow>
   emitted es p = []"
  by (simp add: emitted_def run_silent)

text \<open>
  Nothing in the class stops a second call of \<open>abort\<close> or \<open>complete\<close>: each such call
  reports once more, and these are the only reports after the first.
\<close>

lemma step_terminal_emits_one:
  "isTerminal e \<Longrightarrow> length (onProgress (step e p)) = Suc (length (onProgress p))"
  by (cases e) (simp_all add: isTerminal_def abort_def complete_def Let_def)

lemma run_terminal_count:
  "isCompleted p \<Longrightarrow> isUpdateStarted p \<Longrightarrow>
   length (onProgress (run es p)) = length (onProgress p) + length (filter isTerminal es)"
proof (induction es arbitrary: p)
  case Nil
  then show ?case by simp
next
  case (Cons e es)
  from Cons.prems have "isCompleted (step e p)" "isUpdateStarted (step e p)"
    by (simp_all add: step_isCompleted step_isUpdateStarted)
  from Cons.IH [OF this] show ?case
    using Cons.prems
    by (cases "isTerminal e") (simp_all add: step_terminal_emits_one step_silent)
qed

lemma emitted_terminal_count:
  "isCompleted p \<Longrightarrow> isUpdateStarted p \<Longrightarrow>
   length (emitted es p) = length (filter isTerminal es)"
  by (simp add: emitted_def run_terminal_count)

text \<open>
  Claim C9, as amended. \<open>abort\<close> calls \<open>onProgress\<close> once, with the current
  percentage and \<open>-1\<close> for both ETA and speed; \<open>complete\<close> calls it once, with 100,
  0 and 0. After either call, whatever the state was and whatever is still scheduled, no
  timer callback and no method call other than a further \<open>abort\<close> or \<open>complete\<close>
  calls \<open>onProgress\<close> again; each further \<open>abort\<close> or \<open>complete\<close> calls it
  once more, so the calls of \<open>onProgress\<close> after a terminal call are as many as the
  terminal calls made after it.
\<close>

theorem terminal_callback_is_last:
  "onProgress (abort p) = onProgress p @ [(percentage p, Fin (- 1), Fin (- 1))]
   \<and> onProgress (complete p) = onProgress p @ [(Fin 100, Fin 0, Fin 0)]
   \<and> (\<forall>es. (\<forall>e\<in>set es. \<not> isTerminal e) \<longrightarrow>
         emitted es (abort p) = [] \<and> emitted es (complete p) = [])
   \<and> (\<forall>es. length (emitted es (abort p)) = length (filter isTerminal es)
         \<and> length (emitted es (complete p)) = length (filter isTerminal es))"
  by (simp add: emitted_silent emitted_terminal_count)
     (simp add: abort_def complete_def Let_def percentage_def)

theorem terminal_callback_is_last_witness:
  "timeouts (abort P500) = [(PeriodicTick, Fin 1000)]
   \<and> onProgress (abort P500) = onProgress P500 @ [(Fin 50, Fin (- 1), Fin (- 1))]
   \<and> onProgress (complete P500) = onProgress P500 @ [(Fin 100, Fin 0, Fin 0)]
   \<and> \<not> isTerminal TimerFires \<and> \<not> isTerminal (CallUpdate (Fin 300))
   \<and> \<not> isTerminal CallStartUpdate
   \<and> onProgress (run [TimerFires, CallUpdate (Fin 300), TimerFires, CallStartUpdate] (abort P500))
       = onProgress (abort P500)
   \<and> emitted [TimerFires, CallUpdate (Fin 300), TimerFires, CallStartUpdate] (abort P500) = []
   \<and> emitted [TimerFires, CallUpdate (Fin 300), TimerFires, CallStartUpdate] (complete P500) = []"
  using terminal_callback_is_last [of P500]
  by (simp add: P500_eval progress_defs jsnum_eval)

text \<open>
  The claim as it was stated, with no callback ever after a terminal call, fails when a
  terminal method is called again: neither \<open>abort\<close> nor \<open>complete\<close> looks at
  \<open>isCompleted\<close>.
\<close>

theorem terminal_callback_is_last_counterexample:
  "emitted [CallComplete] (abort P500) = [(Fin 100, Fin 0, Fin 0)]
   \<and> emitted [CallAbort] (complete P500) = [(Fin 50, Fin (- 1), Fin (- 1))]"
  by (simp add: P500_eval progress_defs jsnum_eval)

text \<open>
  Claim C10. Once \<open>abort\<close> or \<open>complete\<close> has been called, on an estimator in any state
  (started or not), every later call of \<open>startUpdate\<close>, \<open>setTotalSize\<close> or
  \<open>setStartSize\<close> throws, whatever happened in between; \<open>update\<close> has no failing
  branch in any state and only adds its argument to \<open>updatedSize\<close>.
\<close>

theorem terminal_marks_started:
  "(\<forall>es. startUpdate (run es (abort p)) = Inl AlreadyStarted
         \<and> setTotalSize n (run es (abort p)) = Inl TooLateTotalSize
         \<and> setStartSize n (run es (abort p)) = Inl TooLateStartSize
         \<and> startUpdate (run es (complete p)) = Inl AlreadyStarted
         \<and> setTotalSize n (run es (complete p)) = Inl TooLateTotalSize
         \<and> setStartSize n (run es (complete p)) = Inl TooLateStartSize)
   \<and> update d p = p\<lparr>updatedSize := jadd (updatedSize p) d\<rparr>
   \<and> step (CallUpdate d) p = p\<lparr>updatedSize := jadd (updatedSize p) d\<rparr>"
  by (simp add: startUpdate_def setTotalSize_def setStartSize_def run_isUpdateStarted update_def)

theorem terminal_marks_started_witness:
  "\<not> isUpdateStarted (new_Progress None None)
   \<and> startUpdate (run [CallUpdate (Fin 5), TimerFires] (abort (new_Progress None None)))
       = Inl AlreadyStarted
   \<and> setTotalSize (Fin 9) (abort (new_Progress None None)) = Inl TooLateTotalSize
   \<and> setStartSize (Fin 9) (complete (new_Progress None None)) = Inl TooLateStartSize
   \<and> updatedSize (update (Fin 5) (complete (new_Progress None None))) = Fin 5"
  using terminal_marks_started
    [where n = "Fin 9" and p = "new_Progress None None" and d = "Fin 5"]
  by (simp add: progress_defs jsnum_eval)

subsection \<open>At most one scheduled callback\<close>

lemma upi_timeouts: "length (timeouts (updateProgressInfo p)) \<le> Suc (length (timeouts p))"
  by (simp add: updateProgressInfo_def Let_def)

lemma iu_timeouts: "length (timeouts (initialUpdate p)) \<le> Suc (length (timeouts p))"
  using upi_timeouts [of "p\<lparr>averageSpeed := x, lastUpdatedSize := y\<rparr>" for x y]
  by (simp add: initialUpdate_def Let_def)

lemma runTimer_timeouts: "length (timeouts (runTimer t p)) \<le> Suc (length (timeouts p))"
  by (cases t) (simp_all add: upi_timeouts iu_timeouts)

lemma fire_timeoutsOk: "timeoutsOk p \<Longrightarrow> timeoutsOk (fire p)"
proof (cases "timeouts p")
  case Nil
  then show "timeoutsOk p \<Longrightarrow> timeoutsOk (fire p)" by (simp add: fire_def)
next
  case (Cons td rest)
  assume ok: "timeoutsOk p"
  obtain t d where td: "td = (t, d)" by (cases td)
  from ok Cons have rest: "rest = []" and started: "isUpdateStarted p"
    by (auto simp: timeoutsOk_def)
  from Cons td have f: "fire p = runTimer t (p\<lparr>timeouts := rest\<rparr>)"
    by (simp add: fire_def)
  from runTimer_timeouts [of t "p\<lparr>timeouts := rest\<rparr>"] rest
  have "length (timeouts (fire p)) \<le> 1" by (simp add: f)
  moreover have "isUpdateStarted (fire p)" using started by simp
  ultimately show "timeoutsOk (fire p)" by (simp add: timeoutsOk_def)
qed

lemma step_timeoutsOk: "timeoutsOk p \<Longrightarrow> timeoutsOk (step e p)"
proof (cases e)
  case TimerFires
  then show "timeoutsOk p \<Longrightarrow> timeoutsOk (step e p)" by (simp add: fire_timeoutsOk)
qed (auto simp: timeoutsOk_def orElse_def setTotalSize_def setStartSize_def startUpdate_def
      update_def abort_def complete_def Let_def)

lemma at_most_one_timeout: "length (timeouts (run es (new_Progress s d))) \<le> 1"
proof -
  have "timeoutsOk p \<Longrightarrow> timeoutsOk (run es p)" for p
    by (induction es arbitrary: p) (simp_all add: step_timeoutsOk)
  moreover have "timeoutsOk (new_Progress s d)"
    by (simp add: timeoutsOk_def new_Progress_def)
  ultimately show ?thesis by (simp add: timeoutsOk_def)
qed

section \<open>Properties of the selection state engine\<close>

lemmas selection_defs = plainImage_def noFields_def mounted_def withDrive_def usbDrive_def
  withOS_def withImage_def setImage_def afterSetImage_def checkImage_def toImage_def
  driveUnfit_def isAncestorDirectory_def segments_def Let_def

subsection \<open>The variant chosen for a device\<close>

lemma smallestOf_min:
  "smallestOf b vs \<in> set (b # vs) \<and> (\<forall>w\<in>set (b # vs). rds (smallestOf b vs) \<le> rds w)"
proof (induction vs arbitrary: b)
  case Nil then show ?case by simp
next
  case (Cons v vs)
  let ?b = "if rds v < rds b then v else b"
  from Cons.IH [of ?b] show ?case by (auto split: if_splits)
qed

lemma largestFitting_acc:
  assumes "case best of None \<Rightarrow> True | Some b \<Rightarrow> rds b \<le> S"
  shows "case largestFitting S best vs of
           None \<Rightarrow> best = None \<and> (\<forall>w\<in>set vs. \<not> rds w \<le> S)
         | Some v \<Rightarrow> (v \<in> set vs \<or> best = Some v) \<and> rds v \<le> S
             \<and> (\<forall>w\<in>set vs. rds w \<le> S \<longrightarrow> rds w \<le> rds v)
             \<and> (\<forall>b. best = Some b \<longrightarrow> rds b \<le> rds v)"
  using assms
proof (induction vs arbitrary: best)
  case Nil then show ?case by (auto split: option.splits)
next
  case (Cons v vs)
  let ?b = "if rds v \<le> S \<and> (case best of None \<Rightarrow> True | Some b \<Rightarrow> rds b < rds v) then Some v else best"
  have "case ?b of None \<Rightarrow> True | Some b \<Rightarrow> rds b \<le> S"
    using Cons.prems by (auto split: option.splits)
  from Cons.IH [OF this] show ?case
    by (auto split: option.splits if_splits)
qed

lemma largestFitting_None:
  "largestFitting S None vs = None \<Longrightarrow> \<forall>w\<in>set vs. \<not> rds w \<le> S"
  using largestFitting_acc [where best = None and S = S and vs = vs] by simp

lemma largestFitting_Some:
  "largestFitting S None vs = Some v \<Longrightarrow>
   v \<in> set vs \<and> rds v \<le> S \<and> (\<forall>w\<in>set vs. rds w \<le> S \<longrightarrow> rds w \<le> rds v)"
  using largestFitting_acc [where best = None and S = S and vs = vs] by simp

lemma smallestImage_min:
  "vs \<noteq> [] \<Longrightarrow> \<exists>v. smallestImage vs = Some v \<and> v \<in> set vs \<and> (\<forall>w\<in>set vs. rds v \<le> rds w)"
proof (cases vs)
  case Nil then show "vs \<noteq> [] \<Longrightarrow> ?thesis" by simp
next
  case (Cons v rest)
  with smallestOf_min [of v rest] show ?thesis by (simp add: smallestImage_def)
qed

lemma selectVariant_spec:
  assumes "vs \<noteq> []"
  shows "\<exists>v. selectVariant dev vs = Some v \<and> v \<in> set vs \<and>
     (case dev of
        None \<Rightarrow> \<forall>w\<in>set vs. rds v \<le> rds w
      | Some d \<Rightarrow>
          if \<exists>w\<in>set vs. rds w \<le> drive_size d
          then rds v \<le> drive_size d \<and> (\<forall>w\<in>set vs. rds w \<le> drive_size d \<longrightarrow> rds w \<le> rds v)
          else \<forall>w\<in>set vs. rds v \<le> rds w)"
proof (cases dev)
  case None
  with smallestImage_min [OF assms] show ?thesis by (simp add: selectVariant_def)
next
  case (Some d)
  show ?thesis
  proof (cases "largestFitting (drive_size d) None vs")
    case None
    from largestFitting_None [OF this] have "\<not> (\<exists>w\<in>set vs. rds w \<le> drive_size d)" by blast
    with smallestImage_min [OF assms] None Some show ?thesis
      by (simp add: selectVariant_def)
  next
    case (Some v)
    from largestFitting_Some [OF this] \<open>dev = Some d\<close> Some show ?thesis
      by (auto simp: selectVariant_def)
  qed
qed

text \<open>
  Claim C1. With an OS selected whose list of variants is not empty, \<open>getImage()\<close>
  returns one of the variants in the effective-Image shape: \<open>path\<close> is the variant's
  URL, \<open>size\<close> its \<open>recommendedDriveSize\<close>, the checksum and its type appear as
  \<open>downloadChecksum\<close> and \<open>downloadChecksumType\<close>, and the logo and the version are
  those of the OS. With a Device of size \<open>S\<close> selected, the variant is one with the
  largest \<open>recommendedDriveSize\<close> among those that are \<open><= S\<close>; when no variant
  qualifies, or no Device is selected, it is one with the smallest
  \<open>recommendedDriveSize\<close> of all.
\<close>

theorem getImage_of_os:
  assumes "sel_os s = Some os" and "os_images os \<noteq> []"
  shows "\<exists>v\<in>set (os_images os).
     getImage s = Some \<lparr> image_path = variant_url v,
       image_size = variant_recommendedDriveSize v,
       image_recommendedDriveSize = None,
       image_url = None,
       image_name = None,
       image_logo = Some (os_logo os),
       image_supportUrl = None,
       image_version = Some (os_version os),
       image_downloadChecksum = Some (variant_checksum v),
       image_downloadChecksumType = Some (variant_checksumType v) \<rparr>
     \<and> (case sel_drive s of
          None \<Rightarrow> \<forall>w\<in>set (os_images os). rds v \<le> rds w
        | Some d \<Rightarrow>
            if \<exists>w\<in>set (os_images os). rds w \<le> drive_size d
            then rds v \<le> drive_size d
               \<and> (\<forall>w\<in>set (os_images os). rds w \<le> drive_size d \<longrightarrow> rds w \<le> rds v)
            else \<forall>w\<in>set (os_images os). rds v \<le> rds w)"
proof -
  from selectVariant_spec [OF assms(2), of "sel_drive s"] obtain v where
    v: "selectVariant (sel_drive s) (os_images os) = Some v" "v \<in> set (os_images os)"
     "(case sel_drive s of
        None \<Rightarrow> \<forall>w\<in>set (os_images os). rds v \<le> rds w
      | Some d \<Rightarrow>
          if \<exists>w\<in>set (os_images os). rds w \<le> drive_size d
          then rds v \<le> drive_size d \<and> (\<forall>w\<in>set (os_images os). rds w \<le> drive_size d \<longrightarrow> rds w \<le> rds v)
          else \<forall>w\<in>set (os_images os). rds v \<le> rds w)"
    by blast
  have "getImage s = Some (effectiveShape os v)"
    using assms(1) v(1) by (simp add: getImage_def)
  with v(2,3) show ?thesis unfolding effectiveShape_def by blast
qed

theorem getImage_of_os_witness:
  "sel_os (withOS (Some (usbDrive ''/dev/disk1'' 4000000000))) = Some customOS
   \<and> os_images customOS \<noteq> []
   \<and> getImage (withOS (Some (usbDrive ''/dev/disk1'' 4000000000))) =
       Some \<lparr> image_path = ''http://path.to/os/os.4gb.tar.gz'',
         image_size = 4000000000,
         image_recommendedDriveSize = None,
         image_url = None,
         image_name = None,
         image_logo = Some ''http://path.to/image/logo'',
         image_supportUrl = None,
         image_version = Some ''1.0.0'',
         image_downloadChecksum = Some ''e5b4ee5f5acf2613b197fe1edf29a80c'',
         image_downloadChecksumType = Some ''md5'' \<rparr>
   \<and> map_option image_path (getImage (withOS (Some (usbDrive ''/dev/disk2'' 8000000000))))
       = Some ''http://path.to/os/os.8gb.tar.gz''
   \<and> map_option image_path (getImage (withOS (Some (usbDrive ''/dev/disk3'' 1000000000))))
       = Some ''http://path.to/os/os.2gb.tar.gz''
   \<and> map_option image_path (getImage (withOS None)) = Some ''http://path.to/os/os.2gb.tar.gz''"
  using getImage_of_os [of "withOS (Some (usbDrive ''/dev/disk1'' 4000000000))" customOS]
  by (simp add: withOS_def customOS_def usbDrive_def getImage_def selectVariant_def
      smallestImage_def effectiveShape_def)

subsection \<open>Paths\<close>

lemma splitPath_nonempty: "splitPath p \<noteq> []"
  by (induction p) (auto split: list.splits)

lemma splitPath_slash: "splitPath (a @ CHR ''/'' # b) = splitPath a @ splitPath b"
proof (induction a)
  case Nil show ?case by simp
next
  case (Cons c a)
  obtain seg segs where "splitPath a = seg # segs"
    using splitPath_nonempty [of a] by (cases "splitPath a") auto
  with Cons show ?case by simp
qed

lemma segments_slash: "segments (a @ CHR ''/'' # b) = segments a @ segments b"
  by (simp add: segments_def splitPath_slash)

lemma dirname_is_ancestor:
  "segments file \<noteq> [] \<Longrightarrow> isAncestorDirectory dir (dir @ CHR ''/'' # file)"
  by (simp add: isAncestorDirectory_def segments_slash)

subsection \<open>Setting an image\<close>

lemma checkImage_ok:
  "checkImage d = None \<longleftrightarrow>
     isString (d_path d) \<and> isNumber (d_size d)
     \<and> (d_url d = Undefined \<or> isString (d_url d))
     \<and> (d_name d = Undefined \<or> isString (d_name d))
     \<and> (d_logo d = Undefined \<or> isString (d_logo d))
     \<and> (d_supportUrl d = Undefined \<or> isString (d_supportUrl d))"
  by (cases "d_path d"; cases "d_size d") (auto simp: checkImage_def)

text \<open>
  Claim C4. A call of \<open>setImage\<close> with a descriptor that passes validation, made
  while a Device is selected, stores the image, clears the OS and clears the Device,
  and raises no error, whenever (a) the device is smaller than the image, or (b) the
  image declares a recommended drive size the device does not reach, or (c) one of the
  device's mount points is an ancestor directory of the image's path.
\<close>

theorem setImage_clears_unfit_drive:
  assumes "checkImage d = None" and "sel_drive s = Some dev"
    and "drive_size dev < image_size (toImage d)
       \<or> (\<exists>r. image_recommendedDriveSize (toImage d) = Some r \<and> drive_size dev < r)
       \<or> (\<exists>m\<in>set (drive_mountpoints dev). isAncestorDirectory m (image_path (toImage d)))"
  shows "setImage d s = Inr (s\<lparr>sel_drive := None, sel_image := Some (toImage d), sel_os := None\<rparr>)"
proof -
  from assms(3) have "driveUnfit dev (toImage d)"
    by (auto simp: driveUnfit_def list_ex_iff)
  with assms(1,2) show ?thesis
    by (simp add: setImage_def Let_def)
qed

theorem setImage_clears_unfit_drive_witness:
  "checkImage (plainImage ''/mnt/bar/foo.img'' 999999999 None) = None
   \<and> isAncestorDirectory ''/mnt/bar'' ''/mnt/bar/foo.img''
   \<and> setImage (plainImage ''/mnt/bar/foo.img'' 999999999 None)
        (withDrive (mounted [''/mnt/bar''] (usbDrive ''/dev/disk1'' 1200000000)))
      = Inr \<lparr> sel_drive = None,
              sel_image = Some (toImage (plainImage ''/mnt/bar/foo.img'' 999999999 None)),
              sel_os = None \<rparr>
   \<and> setImage (plainImage ''foo.img'' 9999999999 None) (withDrive (usbDrive ''/dev/disk1'' 999999999))
      = Inr \<lparr> sel_drive = None,
              sel_image = Some (toImage (plainImage ''foo.img'' 9999999999 None)),
              sel_os = None \<rparr>
   \<and> setImage (plainImage ''foo.img'' 999999999 (Some 1500000000))
        (withDrive (usbDrive ''/dev/disk1'' 1200000000))
      = Inr \<lparr> sel_drive = None,
              sel_image = Some (toImage (plainImage ''foo.img'' 999999999 (Some 1500000000))),
              sel_os = None \<rparr>
   \<and> sel_drive (afterSetImage (plainImage ''foo.img'' 999999999 None)
        (withDrive (usbDrive ''/dev/disk1'' 1200000000)))
      = Some (usbDrive ''/dev/disk1'' 1200000000)"
  using setImage_clears_unfit_drive
    [of "plainImage ''/mnt/bar/foo.img'' 999999999 None"
        "withDrive (mounted [''/mnt/bar''] (usbDrive ''/dev/disk1'' 1200000000))"
        "mounted [''/mnt/bar''] (usbDrive ''/dev/disk1'' 1200000000)"]
    setImage_clears_unfit_drive
    [of "plainImage ''foo.img'' 9999999999 None"
        "withDrive (usbDrive ''/dev/disk1'' 999999999)" "usbDrive ''/dev/disk1'' 999999999"]
    setImage_clears_unfit_drive
    [of "plainImage ''foo.img'' 999999999 (Some 1500000000)"
        "withDrive (usbDrive ''/dev/disk1'' 1200000000)" "usbDrive ''/dev/disk1'' 1200000000"]
  by (simp add: selection_defs)

text \<open>
  Claim C5. \<open>setImage\<close> raises \<open>InvalidArgument\<close> naming the field for a missing
  path, a path that is not a string, a missing size, a size that is not a number, and a
  \<open>url\<close>, \<open>name\<close> or \<open>logo\<close> that is present and not a string (the first such
  field in this order); the seven errors are pairwise different, and the selection after
  a failed call is the one before it. A descriptor with a string path, a numeric size
  and no optional field of the wrong type succeeds, and the selected Image is then the
  descriptor's.
\<close>

theorem setImage_validation:
  "(d_path d = Undefined \<longrightarrow> setImage d s = Inl (InvalidArgument Path Missing))
   \<and> (d_path d \<noteq> Undefined \<and> \<not> isString (d_path d) \<longrightarrow>
        setImage d s = Inl (InvalidArgument Path Mistyped))
   \<and> (isString (d_path d) \<and> d_size d = Undefined \<longrightarrow>
        setImage d s = Inl (InvalidArgument Size Missing))
   \<and> (isString (d_path d) \<and> d_size d \<noteq> Undefined \<and> \<not> isNumber (d_size d) \<longrightarrow>
        setImage d s = Inl (InvalidArgument Size Mistyped))
   \<and> (isString (d_path d) \<and> isNumber (d_size d)
        \<and> d_url d \<noteq> Undefined \<and> \<not> isString (d_url d) \<longrightarrow>
        setImage d s = Inl (InvalidArgument Url Mistyped))
   \<and> (isString (d_path d) \<and> isNumber (d_size d)
        \<and> (d_url d = Undefined \<or> isString (d_url d))
        \<and> d_name d \<noteq> Undefined \<and> \<not> isString (d_name d) \<longrightarrow>
        setImage d s = Inl (InvalidArgument Name Mistyped))
   \<and> (isString (d_path d) \<and> isNumber (d_size d)
        \<and> (d_url d = Undefined \<or> isString (d_url d))
        \<and> (d_name d = Undefined \<or> isString (d_name d))
        \<and> d_logo d \<noteq> Undefined \<and> \<not> isString (d_logo d) \<longrightarrow>
        setImage d s = Inl (InvalidArgument Logo Mistyped))
   \<and> (\<forall>e. setImage d s = Inl e \<longrightarrow> afterSetImage d s = s)
   \<and> (\<forall>p n. d_path d = Str p \<and> d_size d = Num n
        \<and> (d_url d = Undefined \<or> isString (d_url d))
        \<and> (d_name d = Undefined \<or> isString (d_name d))
        \<and> (d_logo d = Undefined \<or> isString (d_logo d))
        \<and> (d_supportUrl d = Undefined \<or> isString (d_supportUrl d)) \<longrightarrow>
        (\<exists>s'. setImage d s = Inr s' \<and> afterSetImage d s = s'
          \<and> sel_image s' = Some (toImage d)
          \<and> image_path (toImage d) = p \<and> image_size (toImage d) = n))
   \<and> distinct [InvalidArgument Path Missing, InvalidArgument Path Mistyped,
        InvalidArgument Size Missing, InvalidArgument Size Mistyped,
        InvalidArgument Url Mistyped, InvalidArgument Name Mistyped,
        InvalidArgument Logo Mistyped]"
  by (cases "d_path d"; cases "d_size d")
     (auto simp: setImage_def afterSetImage_def checkImage_def toImage_def Let_def
       split: option.splits)

theorem setImage_validation_witness:
  "setImage (noFields\<lparr>d_size := Num 999999999\<rparr>) withImage = Inl (InvalidArgument Path Missing)
   \<and> afterSetImage (noFields\<lparr>d_size := Num 999999999\<rparr>) withImage = withImage
   \<and> setImage (noFields\<lparr>d_path := Num 123, d_size := Num 999999999\<rparr>) withImage
       = Inl (InvalidArgument Path Mistyped)
   \<and> setImage (noFields\<lparr>d_path := Str ''foo.img''\<rparr>) withImage
       = Inl (InvalidArgument Size Missing)
   \<and> setImage (noFields\<lparr>d_path := Str ''foo.img'', d_size := Str ''999999999''\<rparr>) withImage
       = Inl (InvalidArgument Size Mistyped)
   \<and> setImage (noFields\<lparr>d_path := Str ''foo.img'', d_size := Num 999999999, d_url := Num 1234\<rparr>)
         withImage
       = Inl (InvalidArgument Url Mistyped)
   \<and> setImage (noFields\<lparr>d_path := Str ''foo.img'', d_size := Num 999999999, d_name := Num 1234\<rparr>)
         withImage
       = Inl (InvalidArgument Name Mistyped)
   \<and> setImage (noFields\<lparr>d_path := Str ''foo.img'', d_size := Num 999999999, d_logo := Num 1234\<rparr>)
         withImage
       = Inl (InvalidArgument Logo Mistyped)
   \<and> map_option image_path
        (sel_image (afterSetImage (noFields\<lparr>d_path := Str ''foo.img'', d_size := Num 999999999\<rparr>)
           withImage))
       = Some ''foo.img''"
  using
    setImage_validation [of "noFields\<lparr>d_size := Num 999999999\<rparr>" withImage]
    setImage_validation [of "noFields\<lparr>d_path := Num 123, d_size := Num 999999999\<rparr>" withImage]
    setImage_validation [of "noFields\<lparr>d_path := Str ''foo.img''\<rparr>" withImage]
    setImage_validation
      [of "noFields\<lparr>d_path := Str ''foo.img'', d_size := Str ''999999999''\<rparr>" withImage]
    setImage_validation
      [of "noFields\<lparr>d_path := Str ''foo.img'', d_size := Num 999999999, d_url := Num 1234\<rparr>"
          withImage]
    setImage_validation
      [of "noFields\<lparr>d_path := Str ''foo.img'', d_size := Num 999999999, d_name := Num 1234\<rparr>"
          withImage]
    setImage_validation
      [of "noFields\<lparr>d_path := Str ''foo.img'', d_size := Num 999999999, d_logo := Num 1234\<rparr>"
          withImage]
    setImage_validation
      [of "noFields\<lparr>d_path := Str ''foo.img'', d_size := Num 999999999\<rparr>" withImage]
  by (simp add: noFields_def withImage_def selection_defs)

end
